theory Spec2Isabelle
  imports Complex_Main
begin

section \<open>Security middleware: anti-forgery token generation\<close>

text \<open>
  The cart store and the function \<open>generateCSRFToken\<close> it imports from the security
  middleware are asynchronous TypeScript with effects. An operation is modelled as a function
  that takes the outside world as a value (the environment below) and threads a record of
  its effects (the tokens generated, the requests sent).

  A thrown value is either an \<open>Error\<close> instance, which carries a message, or some other
  value; \<open>error instanceof Error\<close> tells them apart.
\<close>

datatype thrown = Error string | NonError

text \<open>
  What an operation can observe of the outside world: the environment variable
  \<open>CSRF_SECRET\<close>, the token library's \<open>create\<close> (its result may differ from call to
  call, so it takes the number of the call), and \<open>fetch\<close>. A fetch either rejects, or
  resolves to a response with its \<open>ok\<close> flag and with what \<open>response.json()\<close> settles to.
  The controller never looks inside a cart, so the snapshot type \<open>'c\<close> is a parameter.
  The token library (\<open>csrf\<close>) and \<open>fetch\<close> are not part of the repository: they are
  taken as they come, with every outcome possible.

  Field names follow the source, with two exceptions: the \<open>quantity\<close> of a
  \<open>CartItemInput\<close> is \<open>quantity_input\<close> (the line items of the pricing engine have a
  \<open>quantity\<close> too), and the \<open>method\<close> of a request is \<open>http_method\<close>. The body of a
  request is the value given to \<open>JSON.stringify\<close>.
\<close>

datatype 'c fetch_result = Rejected thrown | Resolved bool "thrown + 'c"

record CartItemInput =
  productId :: string
  variantId :: "string option"
  quantity_input :: real

datatype payload = ItemPayload CartItemInput | QuantityPayload real | CodePayload string

record request =
  url :: string
  http_method :: string
  headers :: "(string \<times> string) list"
  body :: "payload option"

record 'c env =
  CSRF_SECRET :: "string option"
  csrfTokens_create :: "nat \<Rightarrow> string \<Rightarrow> thrown + string"
  fetch :: "request \<Rightarrow> 'c fetch_result"

text \<open>The effects of an operation on the world: tokens generated so far, requests sent so far.\<close>

record world =
  csrf_calls :: nat
  sent :: "request list"

text \<open>JavaScript truthiness of an optional string: \<open>undefined\<close> and the empty string are falsy.\<close>

definition truthy :: "string option \<Rightarrow> bool" where
  "truthy s = (case s of None \<Rightarrow> False | Some v \<Rightarrow> v \<noteq> [])"

definition generateCSRFToken :: "'c env \<Rightarrow> string option \<Rightarrow> world \<Rightarrow> (thrown + string) \<times> world" where
  "generateCSRFToken env secret w =
     (let csrfSecret = (if truthy secret then secret else CSRF_SECRET env)
      in case csrfSecret of
           None \<Rightarrow> (Inl (Error ''CSRF_SECRET environment variable is required''), w)
         | Some v \<Rightarrow>
             if v = [] then (Inl (Error ''CSRF_SECRET environment variable is required''), w)
             else (csrfTokens_create env (csrf_calls w) v, w\<lparr>csrf_calls := Suc (csrf_calls w)\<rparr>))"

section \<open>Cart store (\<open>useCartStore\<close> and its \<open>cartApi\<close>)\<close>

text \<open>
  \<open>getCSRFToken\<close> calls \<open>generateCSRFToken()\<close> with no argument and replaces whatever it
  throws by \<open>Error('Security configuration error')\<close>.
\<close>

definition getCSRFToken :: "'c env \<Rightarrow> world \<Rightarrow> (thrown + string) \<times> world" where
  "getCSRFToken env w =
     (case generateCSRFToken env None w of
        (Inr token, w') \<Rightarrow> (Inr token, w')
      | (Inl error, w') \<Rightarrow> (Inl (Error ''Security configuration error''), w'))"

subsection \<open>cartApi\<close>

definition cartApi_getCart :: "'c env \<Rightarrow> world \<Rightarrow> (thrown + 'c) \<times> world" where
  "cartApi_getCart env w =
     (let req = \<lparr>url = ''/api/shop/cart'', http_method = ''GET'', headers = [], body = None\<rparr>;
          w' = w\<lparr>sent := sent w @ [req]\<rparr>
      in case fetch env req of
           Rejected e \<Rightarrow> (Inl e, w')
         | Resolved ok json \<Rightarrow>
             if \<not> ok then (Inl (Error ''Failed to fetch cart''), w') else (json, w'))"

definition cartApi_addItem :: "'c env \<Rightarrow> CartItemInput \<Rightarrow> world \<Rightarrow> (thrown + 'c) \<times> world" where
  "cartApi_addItem env item w =
     (case getCSRFToken env w of
        (Inl e, w1) \<Rightarrow> (Inl e, w1)
      | (Inr csrfToken, w1) \<Rightarrow>
          let req = \<lparr>url = ''/api/shop/cart/items'', http_method = ''POST'',
                     headers = [(''Content-Type'', ''application/json''), (''X-CSRF-Token'', csrfToken)],
                     body = Some (ItemPayload item)\<rparr>;
              w' = w1\<lparr>sent := sent w1 @ [req]\<rparr>
          in case fetch env req of
               Rejected e \<Rightarrow> (Inl e, w')
             | Resolved ok json \<Rightarrow>
                 if \<not> ok then (Inl (Error ''Failed to add item to cart''), w') else (json, w'))"

definition cartApi_updateQuantity :: "'c env \<Rightarrow> string \<Rightarrow> real \<Rightarrow> world \<Rightarrow> (thrown + 'c) \<times> world" where
  "cartApi_updateQuantity env itemId quantity w =
     (case getCSRFToken env w of
        (Inl e, w1) \<Rightarrow> (Inl e, w1)
      | (Inr csrfToken, w1) \<Rightarrow>
          let req = \<lparr>url = ''/api/shop/cart/items/'' @ itemId, http_method = ''PUT'',
                     headers = [(''Content-Type'', ''application/json''), (''X-CSRF-Token'', csrfToken)],
                     body = Some (QuantityPayload quantity)\<rparr>;
              w' = w1\<lparr>sent := sent w1 @ [req]\<rparr>
          in case fetch env req of
               Rejected e \<Rightarrow> (Inl e, w')
             | Resolved ok json \<Rightarrow>
                 if \<not> ok then (Inl (Error ''Failed to update item quantity''), w') else (json, w'))"

definition cartApi_removeItem :: "'c env \<Rightarrow> string \<Rightarrow> world \<Rightarrow> (thrown + 'c) \<times> world" where
  "cartApi_removeItem env itemId w =
     (case getCSRFToken env w of
        (Inl e, w1) \<Rightarrow> (Inl e, w1)
      | (Inr csrfToken, w1) \<Rightarrow>
          let req = \<lparr>url = ''/api/shop/cart/items/'' @ itemId, http_method = ''DELETE'',
                     headers = [(''X-CSRF-Token'', csrfToken)], body = None\<rparr>;
              w' = w1\<lparr>sent := sent w1 @ [req]\<rparr>
          in case fetch env req of
               Rejected e \<Rightarrow> (Inl e, w')
             | Resolved ok json \<Rightarrow>
                 if \<not> ok then (Inl (Error ''Failed to remove item from cart''), w') else (json, w'))"

text \<open>\<open>clearCart\<close> resolves to nothing: the body of the response is not read.\<close>

definition cartApi_clearCart :: "'c env \<Rightarrow> world \<Rightarrow> (thrown + unit) \<times> world" where
  "cartApi_clearCart env w =
     (case getCSRFToken env w of
        (Inl e, w1) \<Rightarrow> (Inl e, w1)
      | (Inr csrfToken, w1) \<Rightarrow>
          let req = \<lparr>url = ''/api/shop/cart'', http_method = ''DELETE'',
                     headers = [(''X-CSRF-Token'', csrfToken)], body = None\<rparr>;
              w' = w1\<lparr>sent := sent w1 @ [req]\<rparr>
          in case fetch env req of
               Rejected e \<Rightarrow> (Inl e, w')
             | Resolved ok json \<Rightarrow>
                 if \<not> ok then (Inl (Error ''Failed to clear cart''), w') else (Inr (), w'))"

definition cartApi_applyDiscount :: "'c env \<Rightarrow> string \<Rightarrow> world \<Rightarrow> (thrown + 'c) \<times> world" where
  "cartApi_applyDiscount env code w =
     (case getCSRFToken env w of
        (Inl e, w1) \<Rightarrow> (Inl e, w1)
      | (Inr csrfToken, w1) \<Rightarrow>
          let req = \<lparr>url = ''/api/shop/cart/discount'', http_method = ''POST'',
                     headers = [(''Content-Type'', ''application/json''), (''X-CSRF-Token'', csrfToken)],
                     body = Some (CodePayload code)\<rparr>;
              w' = w1\<lparr>sent := sent w1 @ [req]\<rparr>
          in case fetch env req of
               Rejected e \<Rightarrow> (Inl e, w')
             | Resolved ok json \<Rightarrow>
                 if \<not> ok then (Inl (Error ''Failed to apply discount''), w') else (json, w'))"

definition cartApi_removeDiscount :: "'c env \<Rightarrow> world \<Rightarrow> (thrown + 'c) \<times> world" where
  "cartApi_removeDiscount env w =
     (case getCSRFToken env w of
        (Inl e, w1) \<Rightarrow> (Inl e, w1)
      | (Inr csrfToken, w1) \<Rightarrow>
          let req = \<lparr>url = ''/api/shop/cart/discount'', http_method = ''DELETE'',
                     headers = [(''X-CSRF-Token'', csrfToken)], body = None\<rparr>;
              w' = w1\<lparr>sent := sent w1 @ [req]\<rparr>
          in case fetch env req of
               Rejected e \<Rightarrow> (Inl e, w')
             | Resolved ok json \<Rightarrow>
                 if \<not> ok then (Inl (Error ''Failed to remove discount''), w') else (json, w'))"

subsection \<open>useCartStore\<close>

record 'c CartStore =
  cart :: "'c option"
  isLoading :: bool
  error :: "string option"

definition initial_store :: "'c CartStore" where
  "initial_store = \<lparr>cart = None, isLoading = False, error = None\<rparr>"

text \<open>
  An operation is run from its first \<open>set\<close> to its settlement, with no other operation
  in between. It takes the store and the world and returns both as it leaves them.
\<close>

definition fetchCart :: "'c env \<Rightarrow> 'c CartStore \<Rightarrow> world \<Rightarrow> 'c CartStore \<times> world" where
  "fetchCart env state w =
     (let s1 = state\<lparr>isLoading := True, error := None\<rparr>
      in case cartApi_getCart env w of
           (Inr c, w') \<Rightarrow> (s1\<lparr>cart := Some c, isLoading := False\<rparr>, w')
         | (Inl e, w') \<Rightarrow>
             (s1\<lparr>error := Some (case e of Error message \<Rightarrow> message
                                   | NonError \<Rightarrow> ''Failed to fetch cart''),
                 isLoading := False\<rparr>, w'))"

definition addItem :: "'c env \<Rightarrow> CartItemInput \<Rightarrow> 'c CartStore \<Rightarrow> world \<Rightarrow> 'c CartStore \<times> world" where
  "addItem env item state w =
     (let s1 = state\<lparr>isLoading := True, error := None\<rparr>
      in case cartApi_addItem env item w of
           (Inr c, w') \<Rightarrow> (s1\<lparr>cart := Some c, isLoading := False\<rparr>, w')
         | (Inl e, w') \<Rightarrow>
             (s1\<lparr>error := Some (case e of Error message \<Rightarrow> message
                                   | NonError \<Rightarrow> ''Failed to add item to cart''),
                 isLoading := False\<rparr>, w'))"

definition removeItem :: "'c env \<Rightarrow> string \<Rightarrow> 'c CartStore \<Rightarrow> world \<Rightarrow> 'c CartStore \<times> world" where
  "removeItem env itemId state w =
     (let s1 = state\<lparr>isLoading := True, error := None\<rparr>
      in case cartApi_removeItem env itemId w of
           (Inr c, w') \<Rightarrow> (s1\<lparr>cart := Some c, isLoading := False\<rparr>, w')
         | (Inl e, w') \<Rightarrow>
             (s1\<lparr>error := Some (case e of Error message \<Rightarrow> message
                                   | NonError \<Rightarrow> ''Failed to remove item from cart''),
                 isLoading := False\<rparr>, w'))"

text \<open>
  With \<open>quantity <= 0\<close> the operation awaits \<open>get().removeItem(itemId)\<close> and returns.
  \<open>removeItem\<close> catches whatever its remote call throws, so the \<open>catch\<close> of
  \<open>updateQuantity\<close> is not reached on that path.
\<close>

definition updateQuantity :: "'c env \<Rightarrow> string \<Rightarrow> real \<Rightarrow> 'c CartStore \<Rightarrow> world \<Rightarrow> 'c CartStore \<times> world" where
  "updateQuantity env itemId quantity state w =
     (let s1 = state\<lparr>isLoading := True, error := None\<rparr>
      in if quantity \<le> 0 then removeItem env itemId s1 w
         else case cartApi_updateQuantity env itemId quantity w of
           (Inr c, w') \<Rightarrow> (s1\<lparr>cart := Some c, isLoading := False\<rparr>, w')
         | (Inl e, w') \<Rightarrow>
             (s1\<lparr>error := Some (case e of Error message \<Rightarrow> message
                                   | NonError \<Rightarrow> ''Failed to update item quantity''),
                 isLoading := False\<rparr>, w'))"

definition clearCart :: "'c env \<Rightarrow> 'c CartStore \<Rightarrow> world \<Rightarrow> 'c CartStore \<times> world" where
  "clearCart env state w =
     (let s1 = state\<lparr>isLoading := True, error := None\<rparr>
      in case cartApi_clearCart env w of
           (Inr u, w') \<Rightarrow> (s1\<lparr>cart := None, isLoading := False\<rparr>, w')
         | (Inl e, w') \<Rightarrow>
             (s1\<lparr>error := Some (case e of Error message \<Rightarrow> message
                                   | NonError \<Rightarrow> ''Failed to clear cart''),
                 isLoading := False\<rparr>, w'))"

definition applyDiscount :: "'c env \<Rightarrow> string \<Rightarrow> 'c CartStore \<Rightarrow> world \<Rightarrow> 'c CartStore \<times> world" where
  "applyDiscount env code state w =
     (let s1 = state\<lparr>isLoading := True, error := None\<rparr>
      in case cartApi_applyDiscount env code w of
           (Inr c, w') \<Rightarrow> (s1\<lparr>cart := Some c, isLoading := False\<rparr>, w')
         | (Inl e, w') \<Rightarrow>
             (s1\<lparr>error := Some (case e of Error message \<Rightarrow> message
                                   | NonError \<Rightarrow> ''Failed to apply discount''),
                 isLoading := False\<rparr>, w'))"

definition removeDiscount :: "'c env \<Rightarrow> 'c CartStore \<Rightarrow> world \<Rightarrow> 'c CartStore \<times> world" where
  "removeDiscount env state w =
     (let s1 = state\<lparr>isLoading := True, error := None\<rparr>
      in case cartApi_removeDiscount env w of
           (Inr c, w') \<Rightarrow> (s1\<lparr>cart := Some c, isLoading := False\<rparr>, w')
         | (Inl e, w') \<Rightarrow>
             (s1\<lparr>error := Some (case e of Error message \<Rightarrow> message
                                   | NonError \<Rightarrow> ''Failed to remove discount''),
                 isLoading := False\<rparr>, w'))"

subsection \<open>Observing an operation\<close>

text \<open>The requests an operation has added to the log, and the anti-forgery header of a request.\<close>

definition new_requests :: "world \<Rightarrow> world \<Rightarrow> request list" where
  "new_requests w w' = drop (length (sent w)) (sent w')"

definition csrf_header :: "request \<Rightarrow> string option" where
  "csrf_header r = map_of (headers r) ''X-CSRF-Token''"

subsection \<open>Example inputs\<close>

text \<open>
  Concrete environments, stores and arguments at which the theorems below are instantiated.
  The snapshot type is \<open>string\<close>; every fetch gets the same answer.
\<close>

definition example_env :: "string option \<Rightarrow> string fetch_result \<Rightarrow> string env" where
  "example_env secret response =
     \<lparr>CSRF_SECRET = secret, csrfTokens_create = (\<lambda>n v. Inr (v @ ''-token'')), fetch = (\<lambda>r. response)\<rparr>"

definition example_world :: world where
  "example_world = \<lparr>csrf_calls = 0, sent = []\<rparr>"

definition failing_env :: "string env" where
  "failing_env = example_env (Some ''secret'') (Rejected (Error ''Network down''))"

definition stale_store :: "string CartStore" where
  "stale_store = \<lparr>cart = Some ''old snapshot'', isLoading = False, error = None\<rparr>"

definition example_item :: CartItemInput where
  "example_item = \<lparr>productId = ''product-1'', variantId = None, quantity_input = 0\<rparr>"

section \<open>Pricing engine (src/src/utils/index.ts)\<close>

text \<open>
  A TypeScript \<open>number\<close> is modelled as an exact \<open>real\<close>: the arithmetic of the pricing
  functions is read as exact decimal arithmetic, and the only rounding is the one the
  currency library performs on purpose. NaN, the infinities and the binary representation
  error of IEEE doubles are outside the model.
\<close>

subsection \<open>The currency library\<close>







subsection \<open>calculateTax, calculateShipping, calculateOrderTotals\<close>


text \<open>
  The third parameter of \<open>calculateShipping\<close> is optional with default 0: \<open>None\<close> is the
  call that leaves it out.
\<close>

definition calculateShipping :: "real \<Rightarrow> real \<Rightarrow> real option \<Rightarrow> real" where
  "calculateShipping subtotal shippingRate threshold =
     (let freeShippingThreshold = (case threshold of None \<Rightarrow> 0 | Some t \<Rightarrow> t)
      in if freeShippingThreshold > 0 \<and> subtotal \<ge> freeShippingThreshold then 0
         else shippingRate)"

record LineItem =
  price :: real
  quantity :: real

record OrderTotals =
  subtotal :: real
  tax :: real
  shipping :: real
  discount :: real
  total :: real



section \<open>Properties of the pricing engine\<close>

subsection \<open>Rounding to cents\<close>

























subsection \<open>Subtotal and the fields of the result\<close>







subsection \<open>C7: shipping\<close>

text \<open>
  Claim C7. For every subtotal, shippingRate and freeShippingThreshold, calculateShipping
  returns 0 when the threshold is strictly positive and the subtotal is at least the
  threshold (so the boundary subtotal = threshold is free), and returns shippingRate in
  every other case, among them a threshold of zero and a threshold left out. When
  shippingRate is not itself 0, the result is 0 in the first case only.
\<close>

theorem calculateShipping_spec:
  "(0 < t \<and> t \<le> s \<longrightarrow> calculateShipping s rate (Some t) = 0)
   \<and> calculateShipping t rate (Some t) = (if 0 < t then 0 else rate)
   \<and> (\<not> (0 < t \<and> t \<le> s) \<longrightarrow> calculateShipping s rate (Some t) = rate)
   \<and> calculateShipping s rate (Some 0) = rate
   \<and> calculateShipping s rate None = rate
   \<and> (rate \<noteq> 0 \<longrightarrow> (calculateShipping s rate (Some t) = 0 \<longleftrightarrow> 0 < t \<and> t \<le> s))"
  by (simp add: calculateShipping_def)

theorem calculateShipping_spec_witness:
  "calculateShipping 30 5.99 (Some 25) = 0
   \<and> calculateShipping 25 5.99 (Some 25) = 0
   \<and> calculateShipping 24.99 5.99 (Some 25) = 5.99
   \<and> calculateShipping 30 5.99 (Some 0) = 5.99
   \<and> calculateShipping 30 5.99 None = 5.99
   \<and> (calculateShipping 30 5.99 (Some 25) = 0 \<longleftrightarrow> (0::real) < 25 \<and> (25::real) \<le> 30)"
  using calculateShipping_spec [of 25 30 "5.99"] calculateShipping_spec [of 25 "24.99" "5.99"]
  by simp

subsection \<open>C1: the total is never negative\<close>



subsection \<open>C2: the free shipping scenario\<close>



subsection \<open>C6: where the tax is rounded\<close>




subsection \<open>C8: the discount is capped by the subtotal\<close>




subsection \<open>C10: a negative discount\<close>




section \<open>Properties of the cart store\<close>

subsection \<open>Token generation\<close>

lemma getCSRFToken_success:
  assumes "CSRF_SECRET env = Some v" "v \<noteq> []" "csrfTokens_create env (csrf_calls w) v = Inr t"
  shows "getCSRFToken env w = (Inr t, w\<lparr>csrf_calls := Suc (csrf_calls w)\<rparr>)"
  using assms by (simp add: getCSRFToken_def generateCSRFToken_def truthy_def)

lemma getCSRFToken_failure:
  assumes "fst (generateCSRFToken env None w) = Inl e"
  shows "\<exists>w1. getCSRFToken env w = (Inl (Error ''Security configuration error''), w1) \<and> sent w1 = sent w"
proof (cases "generateCSRFToken env None w")
  case (Pair r w1)
  with assms have r: "r = Inl e" by simp
  have "sent w1 = sent w"
    using Pair by (auto simp: generateCSRFToken_def Let_def split: option.splits if_splits)
  with Pair r show ?thesis
    by (simp add: getCSRFToken_def)
qed

lemma getCSRFToken_sent: "sent (snd (getCSRFToken env w)) = sent w"
  by (auto simp: getCSRFToken_def generateCSRFToken_def Let_def split: option.splits if_splits sum.splits prod.splits)

lemmas api_defs = cartApi_addItem_def cartApi_updateQuantity_def cartApi_removeItem_def
  cartApi_clearCart_def cartApi_applyDiscount_def cartApi_removeDiscount_def

subsection \<open>Failure of the remote call\<close>

lemma fetchCart_failure:
  assumes "fst (cartApi_getCart env w) = Inl e"
  shows "cart (fst (fetchCart env s w)) = cart s \<and> \<not> isLoading (fst (fetchCart env s w))
    \<and> error (fst (fetchCart env s w))
        = Some (case e of Error message \<Rightarrow> message | NonError \<Rightarrow> ''Failed to fetch cart'')"
  using assms by (cases "cartApi_getCart env w") (simp add: fetchCart_def)

lemma addItem_failure:
  assumes "fst (cartApi_addItem env item w) = Inl e"
  shows "cart (fst (addItem env item s w)) = cart s \<and> \<not> isLoading (fst (addItem env item s w))
    \<and> error (fst (addItem env item s w))
        = Some (case e of Error message \<Rightarrow> message | NonError \<Rightarrow> ''Failed to add item to cart'')"
  using assms by (cases "cartApi_addItem env item w") (simp add: addItem_def)

lemma removeItem_failure:
  assumes "fst (cartApi_removeItem env itemId w) = Inl e"
  shows "cart (fst (removeItem env itemId s w)) = cart s \<and> \<not> isLoading (fst (removeItem env itemId s w))
    \<and> error (fst (removeItem env itemId s w))
        = Some (case e of Error message \<Rightarrow> message | NonError \<Rightarrow> ''Failed to remove item from cart'')"
  using assms by (cases "cartApi_removeItem env itemId w") (simp add: removeItem_def)

lemma removeItem_begin:
  "removeItem env itemId (s\<lparr>isLoading := True, error := None\<rparr>) w = removeItem env itemId s w"
  by (simp add: removeItem_def)

lemma updateQuantity_le_zero:
  "qty \<le> 0 \<Longrightarrow> updateQuantity env itemId qty s w = removeItem env itemId s w"
  by (simp add: updateQuantity_def removeItem_begin)

lemma updateQuantity_failure:
  assumes "0 < qty" "fst (cartApi_updateQuantity env itemId qty w) = Inl e"
  shows "cart (fst (updateQuantity env itemId qty s w)) = cart s
    \<and> \<not> isLoading (fst (updateQuantity env itemId qty s w))
    \<and> error (fst (updateQuantity env itemId qty s w))
        = Some (case e of Error message \<Rightarrow> message | NonError \<Rightarrow> ''Failed to update item quantity'')"
  using assms by (cases "cartApi_updateQuantity env itemId qty w") (simp add: updateQuantity_def)

lemma clearCart_failure:
  assumes "fst (cartApi_clearCart env w) = Inl e"
  shows "cart (fst (clearCart env s w)) = cart s \<and> \<not> isLoading (fst (clearCart env s w))
    \<and> error (fst (clearCart env s w))
        = Some (case e of Error message \<Rightarrow> message | NonError \<Rightarrow> ''Failed to clear cart'')"
  using assms by (cases "cartApi_clearCart env w") (simp add: clearCart_def)

lemma applyDiscount_failure:
  assumes "fst (cartApi_applyDiscount env code w) = Inl e"
  shows "cart (fst (applyDiscount env code s w)) = cart s \<and> \<not> isLoading (fst (applyDiscount env code s w))
    \<and> error (fst (applyDiscount env code s w))
        = Some (case e of Error message \<Rightarrow> message | NonError \<Rightarrow> ''Failed to apply discount'')"
  using assms by (cases "cartApi_applyDiscount env code w") (simp add: applyDiscount_def)

lemma removeDiscount_failure:
  assumes "fst (cartApi_removeDiscount env w) = Inl e"
  shows "cart (fst (removeDiscount env s w)) = cart s \<and> \<not> isLoading (fst (removeDiscount env s w))
    \<and> error (fst (removeDiscount env s w))
        = Some (case e of Error message \<Rightarrow> message | NonError \<Rightarrow> ''Failed to remove discount'')"
  using assms by (cases "cartApi_removeDiscount env w") (simp add: removeDiscount_def)

subsection \<open>Requests sent by removeItem\<close>

lemma removeItem_requests:
  "new_requests w (snd (removeItem env itemId s w)) = []
   \<or> (\<exists>t. new_requests w (snd (removeItem env itemId s w))
         = [\<lparr>url = ''/api/shop/cart/items/'' @ itemId, http_method = ''DELETE'',
             headers = [(''X-CSRF-Token'', t)], body = None\<rparr>])"
proof (cases "getCSRFToken env w")
  case (Pair r w1)
  have s: "sent w1 = sent w"
    using getCSRFToken_sent [of env w] Pair by simp
  show ?thesis
  proof (cases r)
    case (Inl e)
    with Pair s show ?thesis
      by (simp add: removeItem_def cartApi_removeItem_def new_requests_def)
  next
    case (Inr t)
    with Pair s show ?thesis
      by (simp add: removeItem_def cartApi_removeItem_def new_requests_def Let_def
          split: fetch_result.splits sum.splits)
  qed
qed

subsection \<open>C5: updateQuantity with a quantity of zero or less\<close>

text \<open>
  Claim C5. For every itemId and every quantity <= 0, and for every outcome of the remote
  remove call (any environment), updateQuantity(itemId, quantity) leaves the controller in
  exactly the same end state (cart, isLoading, error) as removeItem(itemId), with the same
  requests sent; every request the operation sends is a DELETE, so the update endpoint (the
  PUT) is never invoked.
\<close>

theorem updateQuantity_nonpositive_delegates:
  assumes "qty \<le> 0"
  shows "updateQuantity env itemId qty s w = removeItem env itemId s w
    \<and> (\<forall>r \<in> set (new_requests w (snd (updateQuantity env itemId qty s w))).
          http_method r = ''DELETE'' \<and> http_method r \<noteq> ''PUT'')"
proof -
  have eq: "updateQuantity env itemId qty s w = removeItem env itemId s w"
    using assms by (rule updateQuantity_le_zero)
  have "\<forall>r \<in> set (new_requests w (snd (removeItem env itemId s w))).
          http_method r = ''DELETE'' \<and> http_method r \<noteq> ''PUT''"
    using removeItem_requests [of w env itemId s] by auto
  with eq show ?thesis by simp
qed

theorem updateQuantity_nonpositive_delegates_witness:
  "(0::real) \<le> 0
   \<and> updateQuantity (example_env (Some ''secret'') (Resolved True (Inr ''snapshot''))) ''item-1'' 0
        initial_store example_world
      = removeItem (example_env (Some ''secret'') (Resolved True (Inr ''snapshot''))) ''item-1''
        initial_store example_world
   \<and> list_all (\<lambda>r. http_method r = ''DELETE'' \<and> http_method r \<noteq> ''PUT'')
        (new_requests example_world
          (snd (updateQuantity (example_env (Some ''secret'') (Resolved True (Inr ''snapshot'')))
                 ''item-1'' 0 initial_store example_world)))
   \<and> new_requests example_world
          (snd (updateQuantity (example_env (Some ''secret'') (Resolved True (Inr ''snapshot'')))
                 ''item-1'' 0 initial_store example_world))
       = [\<lparr>url = ''/api/shop/cart/items/item-1'', http_method = ''DELETE'',
           headers = [(''X-CSRF-Token'', ''secret-token'')], body = None\<rparr>]"
proof -
  have h: "(0::real) \<le> 0" by simp
  have "new_requests example_world
          (snd (removeItem (example_env (Some ''secret'') (Resolved True (Inr ''snapshot'')))
                 ''item-1'' initial_store example_world))
       = [\<lparr>url = ''/api/shop/cart/items/item-1'', http_method = ''DELETE'',
           headers = [(''X-CSRF-Token'', ''secret-token'')], body = None\<rparr>]"
    by (simp add: removeItem_def cartApi_removeItem_def getCSRFToken_def generateCSRFToken_def
        truthy_def example_env_def example_world_def new_requests_def Let_def)
  with updateQuantity_nonpositive_delegates [OF h, of "example_env (Some ''secret'') (Resolved True (Inr ''snapshot''))" "''item-1''"
      initial_store example_world]
  show ?thesis by (simp add: list_all_iff)
qed

subsection \<open>C4: a failed operation leaves the cart as it was\<close>

text \<open>
  Claim C4. For every cart controller operation (fetchCart, addItem, updateQuantity,
  removeItem, clearCart, applyDiscount, removeDiscount), if the remote call fails (it
  throws \<open>e\<close>), then at settlement the cart field is exactly the value it held before the
  call, isLoading is false, and error is set to a message: the message of \<open>e\<close> when it is an
  Error, the operation's own message otherwise. For updateQuantity the remote call is the
  update call when the quantity is positive and the remove call otherwise.
\<close>

theorem failed_operation_keeps_cart:
  "(fst (cartApi_getCart env w) = Inl e \<longrightarrow>
      cart (fst (fetchCart env s w)) = cart s \<and> \<not> isLoading (fst (fetchCart env s w))
      \<and> error (fst (fetchCart env s w))
          = Some (case e of Error message \<Rightarrow> message | NonError \<Rightarrow> ''Failed to fetch cart''))
   \<and> (fst (cartApi_addItem env item w) = Inl e \<longrightarrow>
      cart (fst (addItem env item s w)) = cart s \<and> \<not> isLoading (fst (addItem env item s w))
      \<and> error (fst (addItem env item s w))
          = Some (case e of Error message \<Rightarrow> message | NonError \<Rightarrow> ''Failed to add item to cart''))
   \<and> (0 < qty \<and> fst (cartApi_updateQuantity env itemId qty w) = Inl e \<longrightarrow>
      cart (fst (updateQuantity env itemId qty s w)) = cart s
      \<and> \<not> isLoading (fst (updateQuantity env itemId qty s w))
      \<and> error (fst (updateQuantity env itemId qty s w))
          = Some (case e of Error message \<Rightarrow> message | NonError \<Rightarrow> ''Failed to update item quantity''))
   \<and> (qty \<le> 0 \<and> fst (cartApi_removeItem env itemId w) = Inl e \<longrightarrow>
      cart (fst (updateQuantity env itemId qty s w)) = cart s
      \<and> \<not> isLoading (fst (updateQuantity env itemId qty s w))
      \<and> error (fst (updateQuantity env itemId qty s w))
          = Some (case e of Error message \<Rightarrow> message | NonError \<Rightarrow> ''Failed to remove item from cart''))
   \<and> (fst (cartApi_removeItem env itemId w) = Inl e \<longrightarrow>
      cart (fst (removeItem env itemId s w)) = cart s \<and> \<not> isLoading (fst (removeItem env itemId s w))
      \<and> error (fst (removeItem env itemId s w))
          = Some (case e of Error message \<Rightarrow> message | NonError \<Rightarrow> ''Failed to remove item from cart''))
   \<and> (fst (cartApi_clearCart env w) = Inl e \<longrightarrow>
      cart (fst (clearCart env s w)) = cart s \<and> \<not> isLoading (fst (clearCart env s w))
      \<and> error (fst (clearCart env s w))
          = Some (case e of Error message \<Rightarrow> message | NonError \<Rightarrow> ''Failed to clear cart''))
   \<and> (fst (cartApi_applyDiscount env code w) = Inl e \<longrightarrow>
      cart (fst (applyDiscount env code s w)) = cart s \<and> \<not> isLoading (fst (applyDiscount env code s w))
      \<and> error (fst (applyDiscount env code s w))
          = Some (case e of Error message \<Rightarrow> message | NonError \<Rightarrow> ''Failed to apply discount''))
   \<and> (fst (cartApi_removeDiscount env w) = Inl e \<longrightarrow>
      cart (fst (removeDiscount env s w)) = cart s \<and> \<not> isLoading (fst (removeDiscount env s w))
      \<and> error (fst (removeDiscount env s w))
          = Some (case e of Error message \<Rightarrow> message | NonError \<Rightarrow> ''Failed to remove discount''))"
proof (intro conjI impI)
  assume "qty \<le> 0 \<and> fst (cartApi_removeItem env itemId w) = Inl e"
  then have q: "updateQuantity env itemId qty s w = removeItem env itemId s w"
    and f: "fst (cartApi_removeItem env itemId w) = Inl e"
    by (simp_all add: updateQuantity_le_zero)
  from removeItem_failure [OF f, of s]
  show "cart (fst (updateQuantity env itemId qty s w)) = cart s"
    "\<not> isLoading (fst (updateQuantity env itemId qty s w))"
    "error (fst (updateQuantity env itemId qty s w))
          = Some (case e of Error message \<Rightarrow> message | NonError \<Rightarrow> ''Failed to remove item from cart'')"
    unfolding q by simp_all
qed (simp_all add: fetchCart_failure addItem_failure updateQuantity_failure removeItem_failure
      clearCart_failure applyDiscount_failure removeDiscount_failure)

lemmas example_eval = failing_env_def example_env_def example_world_def getCSRFToken_def
  generateCSRFToken_def truthy_def Let_def

theorem failed_operation_keeps_cart_witness:
  "fst (cartApi_getCart failing_env example_world) = Inl (Error ''Network down'')
   \<and> cart (fst (fetchCart failing_env stale_store example_world)) = cart stale_store
   \<and> \<not> isLoading (fst (fetchCart failing_env stale_store example_world))
   \<and> error (fst (fetchCart failing_env stale_store example_world)) = Some ''Network down''
   \<and> fst (cartApi_addItem failing_env example_item example_world) = Inl (Error ''Network down'')
   \<and> cart (fst (addItem failing_env example_item stale_store example_world)) = cart stale_store
   \<and> \<not> isLoading (fst (addItem failing_env example_item stale_store example_world))
   \<and> error (fst (addItem failing_env example_item stale_store example_world)) = Some ''Network down''
   \<and> (0::real) < 2
   \<and> fst (cartApi_updateQuantity failing_env ''item-1'' 2 example_world) = Inl (Error ''Network down'')
   \<and> cart (fst (updateQuantity failing_env ''item-1'' 2 stale_store example_world)) = cart stale_store
   \<and> \<not> isLoading (fst (updateQuantity failing_env ''item-1'' 2 stale_store example_world))
   \<and> error (fst (updateQuantity failing_env ''item-1'' 2 stale_store example_world)) = Some ''Network down''
   \<and> (0::real) \<le> 0
   \<and> fst (cartApi_removeItem failing_env ''item-1'' example_world) = Inl (Error ''Network down'')
   \<and> cart (fst (updateQuantity failing_env ''item-1'' 0 stale_store example_world)) = cart stale_store
   \<and> \<not> isLoading (fst (updateQuantity failing_env ''item-1'' 0 stale_store example_world))
   \<and> error (fst (updateQuantity failing_env ''item-1'' 0 stale_store example_world)) = Some ''Network down''
   \<and> fst (cartApi_removeItem failing_env ''item-1'' example_world) = Inl (Error ''Network down'')
   \<and> cart (fst (removeItem failing_env ''item-1'' stale_store example_world)) = cart stale_store
   \<and> \<not> isLoading (fst (removeItem failing_env ''item-1'' stale_store example_world))
   \<and> error (fst (removeItem failing_env ''item-1'' stale_store example_world)) = Some ''Network down''
   \<and> fst (cartApi_clearCart failing_env example_world) = Inl (Error ''Network down'')
   \<and> cart (fst (clearCart failing_env stale_store example_world)) = cart stale_store
   \<and> \<not> isLoading (fst (clearCart failing_env stale_store example_world))
   \<and> error (fst (clearCart failing_env stale_store example_world)) = Some ''Network down''
   \<and> fst (cartApi_applyDiscount failing_env ''SAVE10'' example_world) = Inl (Error ''Network down'')
   \<and> cart (fst (applyDiscount failing_env ''SAVE10'' stale_store example_world)) = cart stale_store
   \<and> \<not> isLoading (fst (applyDiscount failing_env ''SAVE10'' stale_store example_world))
   \<and> error (fst (applyDiscount failing_env ''SAVE10'' stale_store example_world)) = Some ''Network down''
   \<and> fst (cartApi_removeDiscount failing_env example_world) = Inl (Error ''Network down'')
   \<and> cart (fst (removeDiscount failing_env stale_store example_world)) = cart stale_store
   \<and> \<not> isLoading (fst (removeDiscount failing_env stale_store example_world))
   \<and> error (fst (removeDiscount failing_env stale_store example_world)) = Some ''Network down''"
proof -
  have h:
    "fst (cartApi_getCart failing_env example_world) = Inl (Error ''Network down'')"
    "fst (cartApi_addItem failing_env example_item example_world) = Inl (Error ''Network down'')"
    "fst (cartApi_updateQuantity failing_env ''item-1'' 2 example_world) = Inl (Error ''Network down'')"
    "fst (cartApi_removeItem failing_env ''item-1'' example_world) = Inl (Error ''Network down'')"
    "fst (cartApi_clearCart failing_env example_world) = Inl (Error ''Network down'')"
    "fst (cartApi_applyDiscount failing_env ''SAVE10'' example_world) = Inl (Error ''Network down'')"
    "fst (cartApi_removeDiscount failing_env example_world) = Inl (Error ''Network down'')"
    by (simp_all add: cartApi_getCart_def api_defs example_eval)
  from failed_operation_keeps_cart [of failing_env example_world "Error ''Network down''" stale_store example_item 2
      "''item-1''" "''SAVE10''"]
    failed_operation_keeps_cart [of failing_env example_world "Error ''Network down''" stale_store example_item 0
      "''item-1''" "''SAVE10''"] h
  show ?thesis by simp
qed

subsection \<open>Anti-forgery token\<close>

lemma addItem_token:
  assumes tok: "CSRF_SECRET env = Some v" "v \<noteq> []" "csrfTokens_create env (csrf_calls w) v = Inr t"
  shows "map csrf_header (new_requests w (snd (addItem env item s w))) = [Some t]
    \<and> csrf_calls (snd (addItem env item s w)) = Suc (csrf_calls w)"
  by (simp add: addItem_def cartApi_addItem_def getCSRFToken_success [OF tok] new_requests_def
      csrf_header_def Let_def split: fetch_result.splits sum.splits)

lemma addItem_no_token:
  assumes "fst (generateCSRFToken env None w) = Inl e"
  shows "new_requests w (snd (addItem env item s w)) = [] \<and> cart (fst (addItem env item s w)) = cart s
    \<and> \<not> isLoading (fst (addItem env item s w))
    \<and> error (fst (addItem env item s w)) = Some ''Security configuration error''"
proof -
  obtain w1 where "getCSRFToken env w = (Inl (Error ''Security configuration error''), w1)" "sent w1 = sent w"
    using getCSRFToken_failure [OF assms] by blast
  then show ?thesis
    by (simp add: addItem_def cartApi_addItem_def new_requests_def Let_def)
qed

lemma addItem_not_ok:
  assumes tok: "CSRF_SECRET env = Some v" "v \<noteq> []" "csrfTokens_create env (csrf_calls w) v = Inr t"
    and resp: "fetch env = (\<lambda>r. Resolved False j)"
  shows "error (fst (addItem env item s w)) = Some ''Failed to add item to cart''"
  by (simp add: addItem_def cartApi_addItem_def getCSRFToken_success [OF tok] resp Let_def)

lemma updateQuantity_token:
  assumes tok: "CSRF_SECRET env = Some v" "v \<noteq> []" "csrfTokens_create env (csrf_calls w) v = Inr t"
  shows "map csrf_header (new_requests w (snd (updateQuantity env itemId qty s w))) = [Some t]
    \<and> csrf_calls (snd (updateQuantity env itemId qty s w)) = Suc (csrf_calls w)"
  by (simp add: updateQuantity_def cartApi_updateQuantity_def removeItem_def cartApi_removeItem_def getCSRFToken_success [OF tok] new_requests_def
      csrf_header_def Let_def split: fetch_result.splits sum.splits)

lemma updateQuantity_no_token:
  assumes "fst (generateCSRFToken env None w) = Inl e"
  shows "new_requests w (snd (updateQuantity env itemId qty s w)) = [] \<and> cart (fst (updateQuantity env itemId qty s w)) = cart s
    \<and> \<not> isLoading (fst (updateQuantity env itemId qty s w))
    \<and> error (fst (updateQuantity env itemId qty s w)) = Some ''Security configuration error''"
proof -
  obtain w1 where "getCSRFToken env w = (Inl (Error ''Security configuration error''), w1)" "sent w1 = sent w"
    using getCSRFToken_failure [OF assms] by blast
  then show ?thesis
    by (simp add: updateQuantity_def cartApi_updateQuantity_def removeItem_def cartApi_removeItem_def new_requests_def Let_def)
qed

lemma updateQuantity_not_ok:
  assumes tok: "CSRF_SECRET env = Some v" "v \<noteq> []" "csrfTokens_create env (csrf_calls w) v = Inr t"
    and resp: "fetch env = (\<lambda>r. Resolved False j)"
  shows "error (fst (updateQuantity env itemId qty s w)) = Some (if qty \<le> 0 then ''Failed to remove item from cart'' else ''Failed to update item quantity'')"
  by (simp add: updateQuantity_def cartApi_updateQuantity_def removeItem_def cartApi_removeItem_def getCSRFToken_success [OF tok] resp Let_def)

lemma removeItem_token:
  assumes tok: "CSRF_SECRET env = Some v" "v \<noteq> []" "csrfTokens_create env (csrf_calls w) v = Inr t"
  shows "map csrf_header (new_requests w (snd (removeItem env itemId s w))) = [Some t]
    \<and> csrf_calls (snd (removeItem env itemId s w)) = Suc (csrf_calls w)"
  by (simp add: removeItem_def cartApi_removeItem_def getCSRFToken_success [OF tok] new_requests_def
      csrf_header_def Let_def split: fetch_result.splits sum.splits)

lemma removeItem_no_token:
  assumes "fst (generateCSRFToken env None w) = Inl e"
  shows "new_requests w (snd (removeItem env itemId s w)) = [] \<and> cart (fst (removeItem env itemId s w)) = cart s
    \<and> \<not> isLoading (fst (removeItem env itemId s w))
    \<and> error (fst (removeItem env itemId s w)) = Some ''Security configuration error''"
proof -
  obtain w1 where "getCSRFToken env w = (Inl (Error ''Security configuration error''), w1)" "sent w1 = sent w"
    using getCSRFToken_failure [OF assms] by blast
  then show ?thesis
    by (simp add: removeItem_def cartApi_removeItem_def new_requests_def Let_def)
qed

lemma removeItem_not_ok:
  assumes tok: "CSRF_SECRET env = Some v" "v \<noteq> []" "csrfTokens_create env (csrf_calls w) v = Inr t"
    and resp: "fetch env = (\<lambda>r. Resolved False j)"
  shows "error (fst (removeItem env itemId s w)) = Some ''Failed to remove item from cart''"
  by (simp add: removeItem_def cartApi_removeItem_def getCSRFToken_success [OF tok] resp Let_def)

lemma clearCart_token:
  assumes tok: "CSRF_SECRET env = Some v" "v \<noteq> []" "csrfTokens_create env (csrf_calls w) v = Inr t"
  shows "map csrf_header (new_requests w (snd (clearCart env s w))) = [Some t]
    \<and> csrf_calls (snd (clearCart env s w)) = Suc (csrf_calls w)"
  by (simp add: clearCart_def cartApi_clearCart_def getCSRFToken_success [OF tok] new_requests_def
      csrf_header_def Let_def split: fetch_result.splits sum.splits)

lemma clearCart_no_token:
  assumes "fst (generateCSRFToken env None w) = Inl e"
  shows "new_requests w (snd (clearCart env s w)) = [] \<and> cart (fst (clearCart env s w)) = cart s
    \<and> \<not> isLoading (fst (clearCart env s w))
    \<and> error (fst (clearCart env s w)) = Some ''Security configuration error''"
proof -
  obtain w1 where "getCSRFToken env w = (Inl (Error ''Security configuration error''), w1)" "sent w1 = sent w"
    using getCSRFToken_failure [OF assms] by blast
  then show ?thesis
    by (simp add: clearCart_def cartApi_clearCart_def new_requests_def Let_def)
qed

lemma clearCart_not_ok:
  assumes tok: "CSRF_SECRET env = Some v" "v \<noteq> []" "csrfTokens_create env (csrf_calls w) v = Inr t"
    and resp: "fetch env = (\<lambda>r. Resolved False j)"
  shows "error (fst (clearCart env s w)) = Some ''Failed to clear cart''"
  by (simp add: clearCart_def cartApi_clearCart_def getCSRFToken_success [OF tok] resp Let_def)

lemma applyDiscount_token:
  assumes tok: "CSRF_SECRET env = Some v" "v \<noteq> []" "csrfTokens_create env (csrf_calls w) v = Inr t"
  shows "map csrf_header (new_requests w (snd (applyDiscount env code s w))) = [Some t]
    \<and> csrf_calls (snd (applyDiscount env code s w)) = Suc (csrf_calls w)"
  by (simp add: applyDiscount_def cartApi_applyDiscount_def getCSRFToken_success [OF tok] new_requests_def
      csrf_header_def Let_def split: fetch_result.splits sum.splits)

lemma applyDiscount_no_token:
  assumes "fst (generateCSRFToken env None w) = Inl e"
  shows "new_requests w (snd (applyDiscount env code s w)) = [] \<and> cart (fst (applyDiscount env code s w)) = cart s
    \<and> \<not> isLoading (fst (applyDiscount env code s w))
    \<and> error (fst (applyDiscount env code s w)) = Some ''Security configuration error''"
proof -
  obtain w1 where "getCSRFToken env w = (Inl (Error ''Security configuration error''), w1)" "sent w1 = sent w"
    using getCSRFToken_failure [OF assms] by blast
  then show ?thesis
    by (simp add: applyDiscount_def cartApi_applyDiscount_def new_requests_def Let_def)
qed

lemma applyDiscount_not_ok:
  assumes tok: "CSRF_SECRET env = Some v" "v \<noteq> []" "csrfTokens_create env (csrf_calls w) v = Inr t"
    and resp: "fetch env = (\<lambda>r. Resolved False j)"
  shows "error (fst (applyDiscount env code s w)) = Some ''Failed to apply discount''"
  by (simp add: applyDiscount_def cartApi_applyDiscount_def getCSRFToken_success [OF tok] resp Let_def)

lemma removeDiscount_token:
  assumes tok: "CSRF_SECRET env = Some v" "v \<noteq> []" "csrfTokens_create env (csrf_calls w) v = Inr t"
  shows "map csrf_header (new_requests w (snd (removeDiscount env s w))) = [Some t]
    \<and> csrf_calls (snd (removeDiscount env s w)) = Suc (csrf_calls w)"
  by (simp add: removeDiscount_def cartApi_removeDiscount_def getCSRFToken_success [OF tok] new_requests_def
      csrf_header_def Let_def split: fetch_result.splits sum.splits)

lemma removeDiscount_no_token:
  assumes "fst (generateCSRFToken env None w) = Inl e"
  shows "new_requests w (snd (removeDiscount env s w)) = [] \<and> cart (fst (removeDiscount env s w)) = cart s
    \<and> \<not> isLoading (fst (removeDiscount env s w))
    \<and> error (fst (removeDiscount env s w)) = Some ''Security configuration error''"
proof -
  obtain w1 where "getCSRFToken env w = (Inl (Error ''Security configuration error''), w1)" "sent w1 = sent w"
    using getCSRFToken_failure [OF assms] by blast
  then show ?thesis
    by (simp add: removeDiscount_def cartApi_removeDiscount_def new_requests_def Let_def)
qed

lemma removeDiscount_not_ok:
  assumes tok: "CSRF_SECRET env = Some v" "v \<noteq> []" "csrfTokens_create env (csrf_calls w) v = Inr t"
    and resp: "fetch env = (\<lambda>r. Resolved False j)"
  shows "error (fst (removeDiscount env s w)) = Some ''Failed to remove discount''"
  by (simp add: removeDiscount_def cartApi_removeDiscount_def getCSRFToken_success [OF tok] resp Let_def)

subsection \<open>C9: the anti-forgery token of a mutating operation\<close>

text \<open>
  Claim C9. For every mutating cart operation (addItem, updateQuantity, removeItem,
  clearCart, applyDiscount, removeDiscount): when the secret is configured and the token
  library creates the token \<open>t\<close> at this call, the operation generates exactly one token and
  sends exactly one request, whose X-CSRF-Token header is \<open>t\<close>; when token generation
  fails, the operation sends no request and settles with isLoading false, the cart
  unchanged and error set to the security-configuration message; and that message differs
  from the message the operation sets when the response is not ok.
\<close>

theorem mutating_operations_csrf:
  "(CSRF_SECRET env = Some v \<and> v \<noteq> [] \<and> csrfTokens_create env (csrf_calls w) v = Inr t \<longrightarrow>
      map csrf_header (new_requests w (snd (addItem env item s w))) = [Some t]
      \<and> csrf_calls (snd (addItem env item s w)) = Suc (csrf_calls w)
      \<and> map csrf_header (new_requests w (snd (updateQuantity env itemId qty s w))) = [Some t]
      \<and> csrf_calls (snd (updateQuantity env itemId qty s w)) = Suc (csrf_calls w)
      \<and> map csrf_header (new_requests w (snd (removeItem env itemId s w))) = [Some t]
      \<and> csrf_calls (snd (removeItem env itemId s w)) = Suc (csrf_calls w)
      \<and> map csrf_header (new_requests w (snd (clearCart env s w))) = [Some t]
      \<and> csrf_calls (snd (clearCart env s w)) = Suc (csrf_calls w)
      \<and> map csrf_header (new_requests w (snd (applyDiscount env code s w))) = [Some t]
      \<and> csrf_calls (snd (applyDiscount env code s w)) = Suc (csrf_calls w)
      \<and> map csrf_header (new_requests w (snd (removeDiscount env s w))) = [Some t]
      \<and> csrf_calls (snd (removeDiscount env s w)) = Suc (csrf_calls w))
   \<and> (fst (generateCSRFToken env None w) = Inl e \<longrightarrow>
      new_requests w (snd (addItem env item s w)) = [] \<and> cart (fst (addItem env item s w)) = cart s
      \<and> \<not> isLoading (fst (addItem env item s w))
      \<and> error (fst (addItem env item s w)) = Some ''Security configuration error''
      \<and> new_requests w (snd (updateQuantity env itemId qty s w)) = [] \<and> cart (fst (updateQuantity env itemId qty s w)) = cart s
      \<and> \<not> isLoading (fst (updateQuantity env itemId qty s w))
      \<and> error (fst (updateQuantity env itemId qty s w)) = Some ''Security configuration error''
      \<and> new_requests w (snd (removeItem env itemId s w)) = [] \<and> cart (fst (removeItem env itemId s w)) = cart s
      \<and> \<not> isLoading (fst (removeItem env itemId s w))
      \<and> error (fst (removeItem env itemId s w)) = Some ''Security configuration error''
      \<and> new_requests w (snd (clearCart env s w)) = [] \<and> cart (fst (clearCart env s w)) = cart s
      \<and> \<not> isLoading (fst (clearCart env s w))
      \<and> error (fst (clearCart env s w)) = Some ''Security configuration error''
      \<and> new_requests w (snd (applyDiscount env code s w)) = [] \<and> cart (fst (applyDiscount env code s w)) = cart s
      \<and> \<not> isLoading (fst (applyDiscount env code s w))
      \<and> error (fst (applyDiscount env code s w)) = Some ''Security configuration error''
      \<and> new_requests w (snd (removeDiscount env s w)) = [] \<and> cart (fst (removeDiscount env s w)) = cart s
      \<and> \<not> isLoading (fst (removeDiscount env s w))
      \<and> error (fst (removeDiscount env s w)) = Some ''Security configuration error'')
   \<and> (CSRF_SECRET env = Some v \<and> v \<noteq> [] \<and> csrfTokens_create env (csrf_calls w) v = Inr t
       \<and> fetch env = (\<lambda>r. Resolved False j) \<longrightarrow>
      error (fst (addItem env item s w)) = Some ''Failed to add item to cart''
      \<and> error (fst (addItem env item s w)) \<noteq> Some ''Security configuration error''
      \<and> error (fst (updateQuantity env itemId qty s w)) = Some (if qty \<le> 0 then ''Failed to remove item from cart'' else ''Failed to update item quantity'')
      \<and> error (fst (updateQuantity env itemId qty s w)) \<noteq> Some ''Security configuration error''
      \<and> error (fst (removeItem env itemId s w)) = Some ''Failed to remove item from cart''
      \<and> error (fst (removeItem env itemId s w)) \<noteq> Some ''Security configuration error''
      \<and> error (fst (clearCart env s w)) = Some ''Failed to clear cart''
      \<and> error (fst (clearCart env s w)) \<noteq> Some ''Security configuration error''
      \<and> error (fst (applyDiscount env code s w)) = Some ''Failed to apply discount''
      \<and> error (fst (applyDiscount env code s w)) \<noteq> Some ''Security configuration error''
      \<and> error (fst (removeDiscount env s w)) = Some ''Failed to remove discount''
      \<and> error (fst (removeDiscount env s w)) \<noteq> Some ''Security configuration error'')"
proof (intro conjI impI)
  assume a: "CSRF_SECRET env = Some v \<and> v \<noteq> [] \<and> csrfTokens_create env (csrf_calls w) v = Inr t
       \<and> fetch env = (\<lambda>r. Resolved False j)"
  then have tok: "CSRF_SECRET env = Some v" "v \<noteq> []" "csrfTokens_create env (csrf_calls w) v = Inr t"
    and resp: "fetch env = (\<lambda>r. Resolved False j)"
    by simp_all

  show "error (fst (addItem env item s w)) = Some ''Failed to add item to cart''"
    using tok resp by (rule addItem_not_ok)
  then show "error (fst (addItem env item s w)) \<noteq> Some ''Security configuration error''"
    by simp

  show "error (fst (updateQuantity env itemId qty s w)) = Some (if qty \<le> 0 then ''Failed to remove item from cart'' else ''Failed to update item quantity'')"
    using tok resp by (rule updateQuantity_not_ok)
  then show "error (fst (updateQuantity env itemId qty s w)) \<noteq> Some ''Security configuration error''"
    by simp

  show "error (fst (removeItem env itemId s w)) = Some ''Failed to remove item from cart''"
    using tok resp by (rule removeItem_not_ok)
  then show "error (fst (removeItem env itemId s w)) \<noteq> Some ''Security configuration error''"
    by simp

  show "error (fst (clearCart env s w)) = Some ''Failed to clear cart''"
    using tok resp by (rule clearCart_not_ok)
  then show "error (fst (clearCart env s w)) \<noteq> Some ''Security configuration error''"
    by simp

  show "error (fst (applyDiscount env code s w)) = Some ''Failed to apply discount''"
    using tok resp by (rule applyDiscount_not_ok)
  then show "error (fst (applyDiscount env code s w)) \<noteq> Some ''Security configuration error''"
    by simp

  show "error (fst (removeDiscount env s w)) = Some ''Failed to remove discount''"
    using tok resp by (rule removeDiscount_not_ok)
  then show "error (fst (removeDiscount env s w)) \<noteq> Some ''Security configuration error''"
    by simp

qed (simp_all add: addItem_token addItem_no_token updateQuantity_token updateQuantity_no_token removeItem_token removeItem_no_token clearCart_token clearCart_no_token applyDiscount_token applyDiscount_no_token removeDiscount_token removeDiscount_no_token)

theorem mutating_operations_csrf_witness:
  "CSRF_SECRET (example_env (Some ''secret'') (Resolved True (Inr ''new snapshot''))) = Some ''secret''
   \<and> ''secret'' \<noteq> []
   \<and> csrfTokens_create (example_env (Some ''secret'') (Resolved True (Inr ''new snapshot''))) (csrf_calls example_world) ''secret'' = Inr ''secret-token''
   \<and> map csrf_header (new_requests example_world (snd (addItem (example_env (Some ''secret'') (Resolved True (Inr ''new snapshot''))) example_item stale_store example_world))) = [Some ''secret-token'']
   \<and> map csrf_header (new_requests example_world (snd (updateQuantity (example_env (Some ''secret'') (Resolved True (Inr ''new snapshot''))) ''item-1'' 2 stale_store example_world))) = [Some ''secret-token'']
   \<and> map csrf_header (new_requests example_world (snd (removeItem (example_env (Some ''secret'') (Resolved True (Inr ''new snapshot''))) ''item-1'' stale_store example_world))) = [Some ''secret-token'']
   \<and> map csrf_header (new_requests example_world (snd (clearCart (example_env (Some ''secret'') (Resolved True (Inr ''new snapshot''))) stale_store example_world))) = [Some ''secret-token'']
   \<and> map csrf_header (new_requests example_world (snd (applyDiscount (example_env (Some ''secret'') (Resolved True (Inr ''new snapshot''))) ''SAVE10'' stale_store example_world))) = [Some ''secret-token'']
   \<and> map csrf_header (new_requests example_world (snd (removeDiscount (example_env (Some ''secret'') (Resolved True (Inr ''new snapshot''))) stale_store example_world))) = [Some ''secret-token'']
   \<and> fst (generateCSRFToken (example_env None (Resolved True (Inr ''new snapshot''))) None example_world) = Inl (Error ''CSRF_SECRET environment variable is required'')
   \<and> new_requests example_world (snd (addItem (example_env None (Resolved True (Inr ''new snapshot''))) example_item stale_store example_world)) = []
   \<and> cart (fst (addItem (example_env None (Resolved True (Inr ''new snapshot''))) example_item stale_store example_world)) = cart stale_store
   \<and> error (fst (addItem (example_env None (Resolved True (Inr ''new snapshot''))) example_item stale_store example_world)) = Some ''Security configuration error''
   \<and> new_requests example_world (snd (updateQuantity (example_env None (Resolved True (Inr ''new snapshot''))) ''item-1'' 2 stale_store example_world)) = []
   \<and> cart (fst (updateQuantity (example_env None (Resolved True (Inr ''new snapshot''))) ''item-1'' 2 stale_store example_world)) = cart stale_store
   \<and> error (fst (updateQuantity (example_env None (Resolved True (Inr ''new snapshot''))) ''item-1'' 2 stale_store example_world)) = Some ''Security configuration error''
   \<and> new_requests example_world (snd (removeItem (example_env None (Resolved True (Inr ''new snapshot''))) ''item-1'' stale_store example_world)) = []
   \<and> cart (fst (removeItem (example_env None (Resolved True (Inr ''new snapshot''))) ''item-1'' stale_store example_world)) = cart stale_store
   \<and> error (fst (removeItem (example_env None (Resolved True (Inr ''new snapshot''))) ''item-1'' stale_store example_world)) = Some ''Security configuration error''
   \<and> new_requests example_world (snd (clearCart (example_env None (Resolved True (Inr ''new snapshot''))) stale_store example_world)) = []
   \<and> cart (fst (clearCart (example_env None (Resolved True (Inr ''new snapshot''))) stale_store example_world)) = cart stale_store
   \<and> error (fst (clearCart (example_env None (Resolved True (Inr ''new snapshot''))) stale_store example_world)) = Some ''Security configuration error''
   \<and> new_requests example_world (snd (applyDiscount (example_env None (Resolved True (Inr ''new snapshot''))) ''SAVE10'' stale_store example_world)) = []
   \<and> cart (fst (applyDiscount (example_env None (Resolved True (Inr ''new snapshot''))) ''SAVE10'' stale_store example_world)) = cart stale_store
   \<and> error (fst (applyDiscount (example_env None (Resolved True (Inr ''new snapshot''))) ''SAVE10'' stale_store example_world)) = Some ''Security configuration error''
   \<and> new_requests example_world (snd (removeDiscount (example_env None (Resolved True (Inr ''new snapshot''))) stale_store example_world)) = []
   \<and> cart (fst (removeDiscount (example_env None (Resolved True (Inr ''new snapshot''))) stale_store example_world)) = cart stale_store
   \<and> error (fst (removeDiscount (example_env None (Resolved True (Inr ''new snapshot''))) stale_store example_world)) = Some ''Security configuration error''
   \<and> CSRF_SECRET (example_env (Some ''secret'') (Resolved False (Inl NonError))) = Some ''secret''
   \<and> ''secret'' \<noteq> []
   \<and> csrfTokens_create (example_env (Some ''secret'') (Resolved False (Inl NonError))) (csrf_calls example_world) ''secret'' = Inr ''secret-token''
   \<and> fetch (example_env (Some ''secret'') (Resolved False (Inl NonError))) = (\<lambda>r. Resolved False (Inl NonError))
   \<and> error (fst (addItem (example_env (Some ''secret'') (Resolved False (Inl NonError))) example_item stale_store example_world)) = Some ''Failed to add item to cart''
   \<and> error (fst (updateQuantity (example_env (Some ''secret'') (Resolved False (Inl NonError))) ''item-1'' 2 stale_store example_world)) = Some ''Failed to update item quantity''
   \<and> error (fst (removeItem (example_env (Some ''secret'') (Resolved False (Inl NonError))) ''item-1'' stale_store example_world)) = Some ''Failed to remove item from cart''
   \<and> error (fst (clearCart (example_env (Some ''secret'') (Resolved False (Inl NonError))) stale_store example_world)) = Some ''Failed to clear cart''
   \<and> error (fst (applyDiscount (example_env (Some ''secret'') (Resolved False (Inl NonError))) ''SAVE10'' stale_store example_world)) = Some ''Failed to apply discount''
   \<and> error (fst (removeDiscount (example_env (Some ''secret'') (Resolved False (Inl NonError))) stale_store example_world)) = Some ''Failed to remove discount''"
proof -
  have h:
    "CSRF_SECRET (example_env (Some ''secret'') (Resolved True (Inr ''new snapshot''))) = Some ''secret''"
    "''secret'' \<noteq> []"
    "csrfTokens_create (example_env (Some ''secret'') (Resolved True (Inr ''new snapshot''))) (csrf_calls example_world) ''secret'' = Inr ''secret-token''"
    "fst (generateCSRFToken (example_env None (Resolved True (Inr ''new snapshot''))) None example_world) = Inl (Error ''CSRF_SECRET environment variable is required'')"
    "CSRF_SECRET (example_env (Some ''secret'') (Resolved False (Inl NonError))) = Some ''secret''"
    "csrfTokens_create (example_env (Some ''secret'') (Resolved False (Inl NonError))) (csrf_calls example_world) ''secret'' = Inr ''secret-token''"
    "fetch (example_env (Some ''secret'') (Resolved False (Inl NonError))) = (\<lambda>r. Resolved False (Inl NonError))"
    by (simp_all add: example_env_def example_world_def generateCSRFToken_def truthy_def)
  from mutating_operations_csrf [where env = "example_env (Some ''secret'') (Resolved True (Inr ''new snapshot''))" and v = "''secret''" and w = example_world
        and t = "''secret-token''" and item = example_item and s = stale_store and itemId = "''item-1''"
        and qty = 2 and code = "''SAVE10''" and e = "NonError" and j = "Inl NonError"]
    mutating_operations_csrf [where env = "example_env None (Resolved True (Inr ''new snapshot''))" and v = "''secret''" and w = example_world
        and t = "''secret-token''" and item = example_item and s = stale_store and itemId = "''item-1''"
        and qty = 2 and code = "''SAVE10''" and e = "Error ''CSRF_SECRET environment variable is required''" and j = "Inl NonError"]
    mutating_operations_csrf [where env = "example_env (Some ''secret'') (Resolved False (Inl NonError))" and v = "''secret''" and w = example_world
        and t = "''secret-token''" and item = example_item and s = stale_store and itemId = "''item-1''"
        and qty = 2 and code = "''SAVE10''" and e = "NonError" and j = "Inl NonError"]
    h
  show ?thesis by simp
qed

subsection \<open>The request of addItem\<close>

lemma addItem_request:
  assumes tok: "CSRF_SECRET env = Some v" "v \<noteq> []" "csrfTokens_create env (csrf_calls w) v = Inr t"
  shows "new_requests w (snd (addItem env item s w))
    = [\<lparr>url = ''/api/shop/cart/items'', http_method = ''POST'',
        headers = [(''Content-Type'', ''application/json''), (''X-CSRF-Token'', t)],
        body = Some (ItemPayload item)\<rparr>]"
  by (simp add: addItem_def cartApi_addItem_def getCSRFToken_success [OF tok] new_requests_def
      Let_def split: fetch_result.splits sum.splits)

lemma addItem_success:
  assumes "fst (cartApi_addItem env item w) = Inr c"
  shows "fst (addItem env item s w) = s\<lparr>cart := Some c, isLoading := False, error := None\<rparr>"
  using assms by (cases "cartApi_addItem env item w") (simp add: addItem_def)

subsection \<open>C3: addItem with quantity 0\<close>

text \<open>
  Claim C3, as stated, fails. With a configured secret and a remote that answers with a
  snapshot, addItem with quantity = 0 is not rejected locally: the POST request is sent,
  error stays absent and the cart is replaced by the snapshot.
\<close>

theorem addItem_zero_quantity_counterexample:
  "quantity_input example_item = 0
   \<and> error (fst (addItem (example_env (Some ''secret'') (Resolved True (Inr ''new snapshot'')))
                  example_item stale_store example_world)) = None
   \<and> cart (fst (addItem (example_env (Some ''secret'') (Resolved True (Inr ''new snapshot'')))
                  example_item stale_store example_world)) = Some ''new snapshot''
   \<and> cart stale_store = Some ''old snapshot''
   \<and> sent example_world = []
   \<and> sent (snd (addItem (example_env (Some ''secret'') (Resolved True (Inr ''new snapshot'')))
                  example_item stale_store example_world))
       = [\<lparr>url = ''/api/shop/cart/items'', http_method = ''POST'',
           headers = [(''Content-Type'', ''application/json''), (''X-CSRF-Token'', ''secret-token'')],
           body = Some (ItemPayload example_item)\<rparr>]"
  by (simp add: addItem_def cartApi_addItem_def getCSRFToken_def generateCSRFToken_def truthy_def
      example_env_def example_world_def example_item_def stale_store_def Let_def)

text \<open>
  Claim C3, amended. When addItem is called with quantity = 0 there is no local validation:
  once the anti-forgery token is generated, the controller sends the POST to
  /api/shop/cart/items with the item as it is, and the state at settlement is decided by the
  remote call alone: on success the cart is the snapshot, isLoading is false and error is
  absent; on failure the cart is unchanged, isLoading is false and error is the message of
  the failure.
\<close>

theorem addItem_zero_quantity_calls_remote:
  assumes "quantity_input item = 0"
  shows "(CSRF_SECRET env = Some v \<and> v \<noteq> [] \<and> csrfTokens_create env (csrf_calls w) v = Inr t \<longrightarrow>
      new_requests w (snd (addItem env item s w))
        = [\<lparr>url = ''/api/shop/cart/items'', http_method = ''POST'',
            headers = [(''Content-Type'', ''application/json''), (''X-CSRF-Token'', t)],
            body = Some (ItemPayload item)\<rparr>])
   \<and> (fst (cartApi_addItem env item w) = Inr c \<longrightarrow>
      fst (addItem env item s w) = s\<lparr>cart := Some c, isLoading := False, error := None\<rparr>)
   \<and> (fst (cartApi_addItem env item w) = Inl e \<longrightarrow>
      cart (fst (addItem env item s w)) = cart s \<and> \<not> isLoading (fst (addItem env item s w))
      \<and> error (fst (addItem env item s w))
          = Some (case e of Error message \<Rightarrow> message | NonError \<Rightarrow> ''Failed to add item to cart''))"
  by (simp add: addItem_request addItem_success addItem_failure)

theorem addItem_zero_quantity_calls_remote_witness:
  "quantity_input example_item = 0
   \<and> CSRF_SECRET (example_env (Some ''secret'') (Resolved True (Inr ''new snapshot''))) = Some ''secret''
   \<and> ''secret'' \<noteq> []
   \<and> csrfTokens_create (example_env (Some ''secret'') (Resolved True (Inr ''new snapshot'')))
        (csrf_calls example_world) ''secret'' = Inr ''secret-token''
   \<and> new_requests example_world
        (snd (addItem (example_env (Some ''secret'') (Resolved True (Inr ''new snapshot'')))
               example_item stale_store example_world))
       = [\<lparr>url = ''/api/shop/cart/items'', http_method = ''POST'',
           headers = [(''Content-Type'', ''application/json''), (''X-CSRF-Token'', ''secret-token'')],
           body = Some (ItemPayload example_item)\<rparr>]
   \<and> fst (cartApi_addItem (example_env (Some ''secret'') (Resolved True (Inr ''new snapshot'')))
             example_item example_world) = Inr ''new snapshot''
   \<and> fst (addItem (example_env (Some ''secret'') (Resolved True (Inr ''new snapshot'')))
             example_item stale_store example_world)
       = stale_store\<lparr>cart := Some ''new snapshot'', isLoading := False, error := None\<rparr>
   \<and> fst (cartApi_addItem failing_env example_item example_world) = Inl (Error ''Network down'')
   \<and> cart (fst (addItem failing_env example_item stale_store example_world)) = cart stale_store
   \<and> \<not> isLoading (fst (addItem failing_env example_item stale_store example_world))
   \<and> error (fst (addItem failing_env example_item stale_store example_world)) = Some ''Network down''"
proof -
  have q: "quantity_input example_item = 0"
    by (simp add: example_item_def)
  have h:
    "CSRF_SECRET (example_env (Some ''secret'') (Resolved True (Inr ''new snapshot''))) = Some ''secret''"
    "''secret'' \<noteq> []"
    "csrfTokens_create (example_env (Some ''secret'') (Resolved True (Inr ''new snapshot'')))
        (csrf_calls example_world) ''secret'' = Inr ''secret-token''"
    "fst (cartApi_addItem (example_env (Some ''secret'') (Resolved True (Inr ''new snapshot'')))
             example_item example_world) = Inr ''new snapshot''"
    "fst (cartApi_addItem failing_env example_item example_world) = Inl (Error ''Network down'')"
    by (simp_all add: cartApi_addItem_def example_eval)
  from addItem_zero_quantity_calls_remote [OF q, where env = "example_env (Some ''secret'') (Resolved True (Inr ''new snapshot''))"
        and v = "''secret''" and w = example_world and t = "''secret-token''" and s = stale_store
        and c = "''new snapshot''" and e = NonError]
    addItem_zero_quantity_calls_remote [OF q, where env = failing_env and v = "''secret''" and w = example_world
        and t = "''secret-token''" and s = stale_store and c = "''new snapshot''"
        and e = "Error ''Network down''"]
    q h
  show ?thesis by simp
qed

end
